theory Spec2Isabelle
  imports Main "HOL-Library.Word" "HOL-Library.AList"
begin

section \<open>Durations and errors\<close>

text \<open>
  The Go type \<open>Duration\<close> wraps \<open>time.Duration\<close>, a signed 64-bit count of
  nanoseconds: arithmetic wraps around and comparisons are signed (\<open><s\<close>, \<open>\<le>s\<close>).
\<close>

type_synonym Duration = "64 word"

definition time_Second :: Duration where
  "time_Second = 1000000000"

text \<open>
  A Go \<open>error\<close> is represented by the text of its \<open>Error()\<close>; \<open>nil\<close> is \<open>None\<close>.
  \<open>errors.Wrap(err, msg)\<close> of github.com/pkg/errors prefixes the message.
\<close>

type_synonym error = string

definition errors_New :: "string \<Rightarrow> error" where
  "errors_New msg = msg"

definition errors_Wrap :: "error \<Rightarrow> string \<Rightarrow> error" where
  "errors_Wrap err msg = msg @ '': '' @ err"

section \<open>Probe configurations and their validation\<close>

text \<open>
  Modelled from the spec: the common part \<open>Base\<close> of a probe configuration, embedded
  by the command configuration. Its Go declaration is not among the files at hand; the
  fields are those of the spec's data model (name, description, interval, one-off flag,
  source tag).
\<close>

record Base =
  Base_Name :: string
  Base_Description :: string
  Base_Interval :: Duration
  Base_OneOff :: bool
  Base_Source :: string

record CommandHealthcheckConfiguration =
  Cmd_Base :: Base
  Command :: string
  Arguments :: "string list"
  Cmd_Timeout :: Duration

record TCPHealthcheckConfiguration =
  TCP_Name :: string
  TCP_Description :: string
  TCP_Target :: string
  TCP_Port :: "64 word"
  TCP_Timeout :: Duration
  TCP_Interval :: Duration
  TCP_OneOff :: bool

record DNSHealthcheckConfiguration =
  DNS_Name :: string
  DNS_Description :: string
  DNS_Domain :: string
  DNS_Interval :: Duration
  DNS_OneOff :: bool

text \<open>\<open>(*CommandHealthcheckConfiguration).Validate\<close>, command.go.\<close>

definition Validate :: "CommandHealthcheckConfiguration \<Rightarrow> error option" where
  "Validate config =
     (if Base_Name (Cmd_Base config) = [] then
        Some (errors_New ''The healthcheck name is missing'')
      else if Command config = [] then
        Some (errors_New ''The healthcheck command is missing'')
      else if Cmd_Timeout config = 0 then
        Some (errors_New ''The healthcheck timeout is missing'')
      else if \<not> Base_OneOff (Cmd_Base config) then
        (if Base_Interval (Cmd_Base config) <s 2 * time_Second then
           Some (errors_New ''The healthcheck interval should be greater than 2 second'')
         else if Base_Interval (Cmd_Base config) <s Cmd_Timeout config then
           Some (errors_New ''The healthcheck interval should be greater than the timeout'')
         else None)
      else None)"

text \<open>\<open>ValidateTCPConfig\<close>, tcp.go. The one-off flag is not consulted.\<close>

definition ValidateTCPConfig :: "TCPHealthcheckConfiguration \<Rightarrow> error option" where
  "ValidateTCPConfig config =
     (if TCP_Name config = [] then
        Some (errors_New ''The healthcheck name is missing'')
      else if TCP_Target config = [] then
        Some (errors_New ''The healthcheck target is missing'')
      else if TCP_Port config = 0 then
        Some (errors_New ''The healthcheck port is missing'')
      else if TCP_Timeout config = 0 then
        Some (errors_New ''The healthcheck timeout is missing'')
      else if TCP_Interval config <s 2 * time_Second then
        Some (errors_New ''The healthcheck interval should be greater than 2 second'')
      else if TCP_Interval config <s TCP_Timeout config then
        Some (errors_New ''The healthcheck interval should be greater than the timeout'')
      else None)"

text \<open>
  \<open>ValidateDNSConfig\<close>, dns.go. The configuration has no timeout; the interval is
  compared with the untyped constant 5, that is 5 nanoseconds.
\<close>

definition ValidateDNSConfig :: "DNSHealthcheckConfiguration \<Rightarrow> error option" where
  "ValidateDNSConfig config =
     (if DNS_Name config = [] then
        Some (errors_New ''The healthcheck name is missing'')
      else if DNS_Domain config = [] then
        Some (errors_New ''The healthcheck domain is missing'')
      else if DNS_Interval config <s 5 then
        Some (errors_New ''The healthcheck interval should be greater than 5'')
      else None)"

section \<open>Probes as the component sees them\<close>

text \<open>Wall-clock instants (\<open>time.Time\<close>), in nanoseconds.\<close>

type_synonym Time = int

text \<open>
  One call of \<open>Execute\<close>, as the outside world decides it: the error it returns and
  the time the call takes.
\<close>

record Execution =
  exec_err :: "error option"
  exec_elapsed :: Duration

text \<open>
  The interface \<open>Healthcheck\<close>. The component and the HTTP handlers reach a probe
  only through its methods, so a probe is represented by its common configuration,
  by what each method returns when called, and by two flags that the calls change:
  whether \<open>Initialize\<close> has succeeded and whether a driver launched by \<open>Start\<close> is
  running. The interface as the healthcheck package declares it has \<open>Initialize\<close>,
  \<open>Name\<close>, \<open>Start\<close>, \<open>Stop\<close>, \<open>Execute\<close> and three logging methods, which are
  left out; the handlers also call \<open>Base()\<close> and \<open>SetSource\<close> on a probe, and
  \<open>Name()\<close> is the name of \<open>Base()\<close>.
\<close>

record Healthcheck =
  hc_Base :: Base
  hc_Initialize :: "error option"
  hc_Start :: "error option"
  hc_Stop :: "error option"
  hc_Execute :: Execution
  hc_initialized :: bool
  hc_running :: bool

definition hc_Name :: "Healthcheck \<Rightarrow> string" where
  "hc_Name h = Base_Name (hc_Base h)"

text \<open>
  Modelled from the spec: the constant \<open>SourceAPI\<close> and the method \<open>SetSource\<close>,
  which the handlers use and which are declared outside the files at hand. The spec:
  the source tag is one of file, api, discovery and ``records who created the probe''.
\<close>

definition SourceAPI :: string where
  "SourceAPI = ''api''"

definition SetSource :: "string \<Rightarrow> Healthcheck \<Rightarrow> Healthcheck" where
  "SetSource s h = h\<lparr>hc_Base := (hc_Base h)\<lparr>Base_Source := s\<rparr>\<rparr>"

text \<open>The effect of each method on the probe, next to the error it returns.\<close>

definition Initialize :: "Healthcheck \<Rightarrow> error option \<times> Healthcheck" where
  "Initialize h =
     (case hc_Initialize h of
        Some err \<Rightarrow> (Some err, h)
      | None \<Rightarrow> (None, h\<lparr>hc_initialized := True\<rparr>))"

definition Start :: "Healthcheck \<Rightarrow> error option \<times> Healthcheck" where
  "Start h =
     (case hc_Start h of
        Some err \<Rightarrow> (Some err, h)
      | None \<Rightarrow> (None, h\<lparr>hc_running := True\<rparr>))"

definition Stop :: "Healthcheck \<Rightarrow> error option \<times> Healthcheck" where
  "Stop h =
     (case hc_Stop h of
        Some err \<Rightarrow> (Some err, h)
      | None \<Rightarrow> (None, h\<lparr>hc_running := False\<rparr>))"

section \<open>Results\<close>

text \<open>\<open>Result\<close> and \<open>NewResult\<close> of the healthcheck package; \<open>now\<close> is \<open>time.Now()\<close>.\<close>

record Result =
  Result_Name :: string
  Success :: bool
  Timestamp :: Time
  message :: string

definition NewResult :: "Healthcheck \<Rightarrow> error option \<Rightarrow> Time \<Rightarrow> Result" where
  "NewResult healthcheck err now =
     (let result = \<lparr>Result_Name = hc_Name healthcheck, Success = False,
                     Timestamp = now, message = []\<rparr>
      in case err of
           Some e \<Rightarrow> result\<lparr>Success := False, message := e\<rparr>
         | None \<Rightarrow> result\<lparr>Success := True, message := ''success''\<rparr>)"

section \<open>The healthcheck component\<close>

text \<open>
  What the component does to its lock, to its map and to the probes, in the order
  it does it. The list is not a field of the Go struct: it records the calls so that
  their order can be stated.
\<close>

datatype event =
    Lock
  | Unlock
  | Initialize_call Healthcheck
  | Start_call Healthcheck
  | Stop_call Healthcheck
  | Execute_call Healthcheck
  | map_delete string
  | map_insert string Healthcheck

text \<open>
  \<open>Healthchecks\<close> is the Go map, kept as an association list with distinct keys: the
  order of the list stands for the order in which \<open>range\<close> visits the map, which Go
  leaves unspecified. \<open>ChanResult\<close> holds the results sent on the channel so far.
  The logger is left out, here and in the handlers: logging changes nothing that a
  caller or another method can see.
\<close>

record Component =
  Healthchecks :: "(string \<times> Healthcheck) list"
  ChanResult :: "Result list"
  calls :: "event list"

definition New :: "Result list \<Rightarrow> Component" where
  "New chanResult = \<lparr>Healthchecks = [], ChanResult = chanResult, calls = []\<rparr>"

definition record_calls :: "event list \<Rightarrow> Component \<Rightarrow> Component" where
  "record_calls es c = c\<lparr>calls := calls c @ es\<rparr>"

definition Component_Start :: "Component \<Rightarrow> error option \<times> Component" where
  "Component_Start c = (None, c)"

text \<open>
  The loop of \<open>(*Component).Stop\<close>: it returns at the first probe whose \<open>Stop\<close>
  fails. The result is the error, the map's entries afterwards and the calls made.
\<close>

fun stop_each ::
  "(string \<times> Healthcheck) list \<Rightarrow> error option \<times> (string \<times> Healthcheck) list \<times> event list"
where
  "stop_each [] = (None, [], [])"
| "stop_each ((k, healthcheck) # rest) =
     (case Stop healthcheck of
        (Some err, h') \<Rightarrow>
          (Some (errors_Wrap err ''Fail to stop the healthcheck component''),
           (k, healthcheck) # rest, [Stop_call healthcheck])
      | (None, h') \<Rightarrow>
          (case stop_each rest of
             (r, rest', es) \<Rightarrow> (r, (k, h') # rest', Stop_call healthcheck # es)))"

definition Component_Stop :: "Component \<Rightarrow> error option \<times> Component" where
  "Component_Stop c =
     (case stop_each (Healthchecks c) of
        (r, hs, es) \<Rightarrow>
          (r, record_calls ([Lock] @ es @ [Unlock]) (c\<lparr>Healthchecks := hs\<rparr>)))"

text \<open>\<open>removeCheck\<close>: the caller holds the lock.\<close>

definition removeCheck :: "string \<Rightarrow> Component \<Rightarrow> error option \<times> Component" where
  "removeCheck identifier c =
     (case map_of (Healthchecks c) identifier of
        Some existingCheck \<Rightarrow>
          (case Stop existingCheck of
             (Some err, h') \<Rightarrow>
               (Some (errors_Wrap err (''Fail to stop healthcheck '' @ hc_Name existingCheck)),
                record_calls [Stop_call existingCheck] c)
           | (None, h') \<Rightarrow>
               (None,
                record_calls [Stop_call existingCheck, map_delete identifier]
                  (c\<lparr>Healthchecks := AList.delete identifier (Healthchecks c)\<rparr>)))
      | None \<Rightarrow> (None, c))"

text \<open>
  \<open>AddCheck\<close>. \<open>Initialize\<close> runs before the lock is taken; the deferred \<open>Unlock\<close>
  runs on every return after it.
\<close>

definition AddCheck :: "Healthcheck \<Rightarrow> Component \<Rightarrow> error option \<times> Component" where
  "AddCheck healthcheck c =
     (case Initialize healthcheck of
        (Some err, h0) \<Rightarrow>
          (Some (errors_Wrap err (''Fail to initialize healthcheck '' @ hc_Name healthcheck)),
           record_calls [Initialize_call healthcheck] c)
      | (None, h1) \<Rightarrow>
          (case removeCheck (hc_Name h1) (record_calls [Initialize_call healthcheck, Lock] c) of
             (Some err, c1) \<Rightarrow>
               (Some (errors_Wrap err (''Fail to stop existing healthcheck '' @ hc_Name h1)),
                record_calls [Unlock] c1)
           | (None, c1) \<Rightarrow>
               (case Start h1 of
                  (Some err, h2) \<Rightarrow>
                    (Some (errors_Wrap err (''Fail to start healthcheck '' @ hc_Name h1)),
                     record_calls [Start_call h1, Unlock] c1)
                | (None, h2) \<Rightarrow>
                    (None,
                     record_calls [Start_call h1, map_insert (hc_Name h2) h2, Unlock]
                       (c1\<lparr>Healthchecks := AList.update (hc_Name h2) h2 (Healthchecks c1)\<rparr>)))))"

definition RemoveCheck :: "string \<Rightarrow> Component \<Rightarrow> error option \<times> Component" where
  "RemoveCheck identifier c =
     (case removeCheck identifier (record_calls [Lock] c) of
        (r, c1) \<Rightarrow> (r, record_calls [Unlock] c1))"

subsection \<open>Properties of a component's state and of its calls\<close>

text \<open>
  The component's map is a map (no key twice), and every probe sits under its own
  name: \<open>AddCheck\<close> stores a probe under \<open>Name()\<close>.
\<close>

definition keyed_by_name :: "Component \<Rightarrow> bool" where
  "keyed_by_name c \<longleftrightarrow>
     distinct (map fst (Healthchecks c)) \<and>
     list_all (\<lambda>(k, h). hc_Name h = k) (Healthchecks c)"

text \<open>
  A list of calls respects the lock when every \<open>Start\<close>, every \<open>Stop\<close> and every
  change of the map happens between a \<open>Lock\<close> and the next \<open>Unlock\<close>, the lock is
  taken only when free and released only when held, and it is free at the end.
  \<open>Initialize\<close> and \<open>Execute\<close> may be called without it.
\<close>

fun lock_held_for_changes :: "bool \<Rightarrow> event list \<Rightarrow> bool" where
  "lock_held_for_changes held [] = (\<not> held)"
| "lock_held_for_changes held (Lock # es) = (\<not> held \<and> lock_held_for_changes True es)"
| "lock_held_for_changes held (Unlock # es) = (held \<and> lock_held_for_changes False es)"
| "lock_held_for_changes held (Initialize_call h # es) = lock_held_for_changes held es"
| "lock_held_for_changes held (Execute_call h # es) = lock_held_for_changes held es"
| "lock_held_for_changes held (e # es) = (held \<and> lock_held_for_changes held es)"

text \<open>
  For the loop of \<open>Stop\<close>: an entry whose probe's \<open>Stop\<close> returns no error, and
  the entry once its probe has been stopped.
\<close>

definition stop_succeeds :: "string \<times> Healthcheck \<Rightarrow> bool" where
  "stop_succeeds = (\<lambda>(k, h). hc_Stop h = None)"

definition stopped :: "string \<times> Healthcheck \<Rightarrow> string \<times> Healthcheck" where
  "stopped = (\<lambda>(k, h). (k, h\<lparr>hc_running := False\<rparr>))"

text \<open>
  A probe for examples: its name, what its \<open>Start\<close> and \<open>Stop\<close> return, and
  whether it is initialised and running.
\<close>

definition example_probe :: "string \<Rightarrow> error option \<Rightarrow> error option \<Rightarrow> bool \<Rightarrow> Healthcheck" where
  "example_probe n start stop running =
     \<lparr>hc_Base = \<lparr>Base_Name = n, Base_Description = [], Base_Interval = 2 * time_Second,
                  Base_OneOff = False, Base_Source = ''api''\<rparr>,
      hc_Initialize = None, hc_Start = start, hc_Stop = stop,
      hc_Execute = \<lparr>exec_err = None, exec_elapsed = 0\<rparr>,
      hc_initialized = running, hc_running = running\<rparr>"

text \<open>A one-off probe for examples: its name and what its \<open>Execute\<close> does.\<close>

definition example_one_off :: "string \<Rightarrow> Execution \<Rightarrow> Healthcheck" where
  "example_one_off n exec =
     \<lparr>hc_Base = \<lparr>Base_Name = n, Base_Description = [], Base_Interval = 0,
                  Base_OneOff = True, Base_Source = ''api''\<rparr>,
      hc_Initialize = None, hc_Start = None, hc_Stop = None,
      hc_Execute = exec,
      hc_initialized = False, hc_running = False\<rparr>"

section \<open>The HTTP handlers\<close>

text \<open>
  The repository holds two versions of the handlers file. Definitions ending in \<open>_A\<close>
  are those of the version that imports \<open>mcorbin/cabourotte\<close> (it answers with
  \<open>BasicResponse{Message}\<close>); definitions ending in \<open>_B\<close> are those of the version
  that imports \<open>appclacks/cabourotte\<close> (it answers with \<open>corbierror\<close> values and
  \<open>BasicResponse{Messages}\<close>).
\<close>

text \<open>
  Modelled from the spec: the \<open>Result\<close> that version A's \<open>oneOff\<close> builds, and the
  three-argument \<open>NewResult\<close> it calls; neither declaration is among the files at
  hand. The spec: ``Form a Result (name, success = err==nil, now, duration, source,
  message = err ? err.message : "success")''. The duration is kept as the measured
  \<open>Duration\<close>; its conversion to a floating-point number of seconds is left out.
\<close>

record SourcedResult =
  SR_Name :: string
  SR_Success :: bool
  SR_Timestamp :: Time
  SR_Duration :: Duration
  SR_Source :: string
  SR_message :: string

definition NewResult3 :: "Healthcheck \<Rightarrow> Duration \<Rightarrow> error option \<Rightarrow> Time \<Rightarrow> SourcedResult" where
  "NewResult3 healthcheck duration err now =
     \<lparr>SR_Name = Base_Name (hc_Base healthcheck),
      SR_Success = (err = None),
      SR_Timestamp = now,
      SR_Duration = duration,
      SR_Source = Base_Source (hc_Base healthcheck),
      SR_message = (case err of Some e \<Rightarrow> e | None \<Rightarrow> ''success'')\<rparr>"

datatype body =
    BasicResponse string
  | BasicResponse_Messages "string list"
  | Result_body SourcedResult

datatype corbierror_kind = Internal | BadRequest | NotFound

text \<open>What a handler returns: a JSON response with its status, or a \<open>corbierror\<close>.\<close>

datatype reply =
    JSON nat body
  | corbierror_New string corbierror_kind bool

record http_Component =
  healthcheck :: Component
  BasicAuth_Username :: string
  BasicAuth_Password :: string

definition newResponse :: "string \<Rightarrow> body" where
  "newResponse msg = BasicResponse_Messages [msg]"

definition http_record_calls :: "event list \<Rightarrow> http_Component \<Rightarrow> http_Component" where
  "http_record_calls es c = c\<lparr>healthcheck := record_calls es (healthcheck c)\<rparr>"

text \<open>\<open>addCheck\<close>, the same in both versions.\<close>

definition addCheck :: "Healthcheck \<Rightarrow> http_Component \<Rightarrow> error option \<times> http_Component" where
  "addCheck check c =
     (case AddCheck (SetSource SourceAPI check) (healthcheck c) of
        (r, hc') \<Rightarrow> (r, c\<lparr>healthcheck := hc'\<rparr>))"

text \<open>
  \<open>oneOff\<close>, version A. \<open>start\<close> is \<open>time.Now()\<close> before \<open>Execute\<close>;
  \<open>time.Since(start)\<close> is the time the call took.
\<close>

definition oneOff_A :: "Time \<Rightarrow> Healthcheck \<Rightarrow> http_Component \<Rightarrow> reply \<times> http_Component" where
  "oneOff_A start check c =
     (case Initialize check of
        (Some err, h0) \<Rightarrow>
          (JSON 500 (BasicResponse (''Fail to initialize one off healthcheck '' @
                       Base_Name (hc_Base check) @ '': '' @ err)),
           http_record_calls [Initialize_call check] c)
      | (None, h1) \<Rightarrow>
          (let err = exec_err (hc_Execute h1);
               duration = exec_elapsed (hc_Execute h1);
               result = NewResult3 h1 duration err (start + sint duration);
               result = result\<lparr>SR_Source := ''one-off''\<rparr>
           in (JSON 201 (Result_body result),
               http_record_calls [Initialize_call check, Execute_call h1] c)))"

text \<open>\<open>oneOff\<close>, version B: it answers with a message, or with an error.\<close>

definition oneOff_B :: "Healthcheck \<Rightarrow> http_Component \<Rightarrow> reply \<times> http_Component" where
  "oneOff_B check c =
     (case Initialize check of
        (Some err, h0) \<Rightarrow>
          (corbierror_New (''Fail to initialize one off healthcheck '' @
                             Base_Name (hc_Base check) @ '': '' @ err) Internal True,
           http_record_calls [Initialize_call check] c)
      | (None, h1) \<Rightarrow>
          (case exec_err (hc_Execute h1) of
             Some err \<Rightarrow>
               (corbierror_New (''Execution of one off healthcheck '' @
                                  Base_Name (hc_Base h1) @ '' failed: '' @ err) Internal True,
                http_record_calls [Initialize_call check, Execute_call h1] c)
           | None \<Rightarrow>
               (JSON 201 (newResponse (''One-off healthcheck '' @
                            Base_Name (hc_Base h1) @ '' successfully executed'')),
                http_record_calls [Initialize_call check, Execute_call h1] c)))"

definition addCheckError_A :: "Healthcheck \<Rightarrow> error \<Rightarrow> reply" where
  "addCheckError_A check err =
     JSON 500 (BasicResponse (''Fail to start the healthcheck '' @
                 Base_Name (hc_Base check) @ '': '' @ err))"

definition addCheckError_B :: "Healthcheck \<Rightarrow> error \<Rightarrow> reply" where
  "addCheckError_B check err =
     corbierror_New (''Fail to start the healthcheck '' @
                       Base_Name (hc_Base check) @ '': '' @ err) Internal True"

definition handleCheck_A :: "Time \<Rightarrow> Healthcheck \<Rightarrow> http_Component \<Rightarrow> reply \<times> http_Component" where
  "handleCheck_A start check c =
     (if Base_OneOff (hc_Base check) then oneOff_A start check c
      else (case addCheck check c of
              (Some err, c') \<Rightarrow> (addCheckError_A check err, c')
            | (None, c') \<Rightarrow> (JSON 201 (BasicResponse ''Healthcheck successfully added''), c')))"

definition handleCheck_B :: "Healthcheck \<Rightarrow> http_Component \<Rightarrow> reply \<times> http_Component" where
  "handleCheck_B check c =
     (if Base_OneOff (hc_Base check) then oneOff_B check c
      else (case addCheck check c of
              (Some err, c') \<Rightarrow> (addCheckError_B check err, c')
            | (None, c') \<Rightarrow> (JSON 201 (newResponse ''Healthcheck successfully added''), c')))"

subsection \<open>Basic Auth\<close>

text \<open>
  \<open>subtle.ConstantTimeCompare\<close> of the Go library: 1 when the two byte strings are
  equal, 0 otherwise.
\<close>

definition subtle_ConstantTimeCompare :: "string \<Rightarrow> string \<Rightarrow> int" where
  "subtle_ConstantTimeCompare x y = (if x = y then 1 else 0)"

text \<open>
  The function that \<open>handlers\<close> gives to \<open>middleware.BasicAuth\<close>: whether the request
  may pass, and an error. Version A, then version B.
\<close>

definition BasicAuth_validator_A :: "http_Component \<Rightarrow> string \<Rightarrow> string \<Rightarrow> bool \<times> error option" where
  "BasicAuth_validator_A c username password =
     (if subtle_ConstantTimeCompare username (BasicAuth_Username c) = 1 \<and>
         subtle_ConstantTimeCompare password (BasicAuth_Password c) = 1
      then (True, None)
      else (False, None))"

definition BasicAuth_validator_B :: "http_Component \<Rightarrow> string \<Rightarrow> string \<Rightarrow> bool \<times> error option" where
  "BasicAuth_validator_B c username password =
     (if subtle_ConstantTimeCompare username (BasicAuth_Username c) = 1 \<and>
         subtle_ConstantTimeCompare password (BasicAuth_Password c) = 1
      then (True, None)
      else (True, None))"

section \<open>The DNS probe\<close>

text \<open>
  A call either returns, panics, or never returns (it waits for something that does
  not come).
\<close>

datatype 'a outcome = Returns 'a | Panics string | Blocks

text \<open>
  \<open>*time.Ticker\<close>: the field \<open>Tick\<close> is a pointer, \<open>nil\<close> (\<open>None\<close>) until \<open>Start\<close>
  stores a ticker in it. A method of \<open>Ticker\<close> reads the ticker's fields, so calling
  it through a \<open>nil\<close> pointer panics.
\<close>

datatype Ticker = Ticker (ticking: bool)

text \<open>
  \<open>tomb.Tomb\<close> (gopkg.in/tomb.v2), as far as \<open>Start\<close> and \<open>Stop\<close> use it: the
  number of goroutines it tracks, whether it is dying (\<open>Kill\<close> was called or a
  goroutine ended), and whether it is dead (the last tracked goroutine has ended).
  \<open>Wait\<close> returns once the tomb is dead. A tomb that tracks no goroutine never dies,
  and whether the tracked goroutines end is for the goroutines to decide:
  \<open>drivers_return\<close> says so.
\<close>

record Tomb =
  alive :: nat
  dying :: bool
  dead :: bool

definition tomb_Kill :: "Tomb \<Rightarrow> Tomb" where
  "tomb_Kill tb = tb\<lparr>dying := True\<rparr>"

definition tomb_Wait :: "bool \<Rightarrow> Tomb \<Rightarrow> Tomb option" where
  "tomb_Wait drivers_return tb =
     (if dead tb then Some tb
      else if alive tb = 0 then None
      else if drivers_return then Some (tb\<lparr>alive := 0, dying := True, dead := True\<rparr>)
      else None)"

text \<open>
  \<open>DNSHealthcheck\<close>. The logger and the reference to the result channel are left
  out: a result that the driver sends appears as the label of the driver's step.
\<close>

record DNSHealthcheck =
  DNS_Config :: DNSHealthcheckConfiguration
  DNS_URL :: string
  DNS_Tick :: "Ticker option"
  DNS_t :: Tomb

definition NewDNSHealthcheck :: "DNSHealthcheckConfiguration \<Rightarrow> DNSHealthcheck" where
  "NewDNSHealthcheck config =
     \<lparr>DNS_Config = config, DNS_URL = [], DNS_Tick = None,
      DNS_t = \<lparr>alive = 0, dying = False, dead = False\<rparr>\<rparr>"

definition DNSHealthcheck_Initialize :: "DNSHealthcheck \<Rightarrow> error option \<times> DNSHealthcheck" where
  "DNSHealthcheck_Initialize h = (None, h)"

definition DNSHealthcheck_Name :: "DNSHealthcheck \<Rightarrow> string" where
  "DNSHealthcheck_Name h = DNS_Name (DNS_Config h)"

text \<open>
  \<open>Start\<close>: \<open>time.NewTicker\<close> panics on a non-positive interval, \<open>Tomb.Go\<close> on a
  dead tomb. Otherwise the ticker is stored and the driver goroutine is tracked.
\<close>

definition DNSHealthcheck_Start :: "DNSHealthcheck \<Rightarrow> (error option \<times> DNSHealthcheck) outcome" where
  "DNSHealthcheck_Start h =
     (if DNS_Interval (DNS_Config h) \<le>s 0 then
        Panics ''non-positive interval for NewTicker''
      else if dead (DNS_t h) then
        Panics ''tomb.Go called after all goroutines terminated''
      else
        Returns (None, h\<lparr>DNS_Tick := Some (Ticker True),
                          DNS_t := (DNS_t h)\<lparr>alive := Suc (alive (DNS_t h))\<rparr>\<rparr>))"

text \<open>\<open>Stop\<close>: \<open>h.Tick.Stop()\<close>, \<open>h.t.Kill(nil)\<close>, \<open>h.t.Wait()\<close>, \<open>return nil\<close>.\<close>

definition DNSHealthcheck_Stop ::
  "bool \<Rightarrow> DNSHealthcheck \<Rightarrow> (error option \<times> DNSHealthcheck) outcome"
where
  "DNSHealthcheck_Stop drivers_return h =
     (case DNS_Tick h of
        None \<Rightarrow> Panics ''invalid memory address or nil pointer dereference''
      | Some tk \<Rightarrow>
          (let h1 = h\<lparr>DNS_Tick := Some (Ticker False)\<rparr>;
               h2 = h1\<lparr>DNS_t := tomb_Kill (DNS_t h1)\<rparr>
           in case tomb_Wait drivers_return (DNS_t h2) of
                None \<Rightarrow> Blocks
              | Some tb \<Rightarrow> Returns (None, h2\<lparr>DNS_t := tb\<rparr>)))"

text \<open>\<open>Execute\<close>: \<open>lookup\<close> is what \<open>net.LookupIP\<close> answers for the domain.\<close>

definition DNSHealthcheck_Execute :: "error option \<Rightarrow> DNSHealthcheck \<Rightarrow> error option" where
  "DNSHealthcheck_Execute lookup h =
     (case lookup of
        Some err \<Rightarrow> Some (errors_Wrap err ''Fail to lookup IP for domain'')
      | None \<Rightarrow> None)"

subsection \<open>The driver\<close>

text \<open>
  The goroutine that \<open>Start\<close> launches is a loop around a \<open>select\<close> on the ticker's
  channel and on \<open>Dying()\<close>. After a tick it calls \<open>Execute\<close>, builds the result and
  sends it on the channel with a plain send. The driver is therefore in one of three
  places: in the \<open>select\<close>, in the send, or gone.
\<close>

datatype driver = Selecting | Sending Result | Exited

text \<open>
  What the driver's surroundings offer at one moment: a tick to receive, a closed
  \<open>Dying()\<close> channel, a receiver (or buffer space) on the result channel; and what
  \<open>Execute\<close> would return now.
\<close>

record driver_env =
  tick_ready :: bool
  dying_closed :: bool
  sink_ready :: bool
  execution :: Execution
  env_now :: Time

text \<open>
  The steps open to the driver, each with the result it puts on the channel, if any.
  When both cases of the \<open>select\<close> are ready Go picks either. A send on a channel
  with no receiver and no buffer space waits.
\<close>

fun driver_steps :: "Healthcheck \<Rightarrow> driver_env \<Rightarrow> driver \<Rightarrow> (Result option \<times> driver) list" where
  "driver_steps h env Selecting =
     (if tick_ready env
      then [(None, Sending (NewResult h (exec_err (execution env))
                              (env_now env + sint (exec_elapsed (execution env)))))]
      else []) @
     (if dying_closed env then [(None, Exited)] else [])"
| "driver_steps h env (Sending result) =
     (if sink_ready env then [(Some result, Selecting)] else [])"
| "driver_steps h env Exited = []"

section \<open>Execute and its timeout\<close>

text \<open>
  A \<open>context.Context\<close>, as far as \<open>Execute\<close> uses it: the time left until it is
  cancelled, \<open>None\<close> when it has no deadline. \<open>done_before ctx need\<close>: the context
  is cancelled before an operation that needs \<open>need\<close> nanoseconds has finished.
\<close>

type_synonym Context = "Duration option"

definition context_Background :: Context where
  "context_Background = None"

definition context_WithTimeout :: "Context \<Rightarrow> Duration \<Rightarrow> Context" where
  "context_WithTimeout parent timeout =
     (case parent of
        None \<Rightarrow> Some timeout
      | Some left \<Rightarrow> Some (if left <s timeout then left else timeout))"

definition done_before :: "Context \<Rightarrow> Duration \<Rightarrow> bool" where
  "done_before ctx need =
     (case ctx of None \<Rightarrow> False | Some left \<Rightarrow> left \<le>s 0 \<or> left <s need)"

text \<open>\<open>Tomb.Context(nil)\<close>: cancelled when the tomb is dying, no deadline otherwise.\<close>

definition tomb_Context :: "Tomb \<Rightarrow> Context" where
  "tomb_Context tb = (if dying tb then Some 0 else None)"

subsection \<open>TCP\<close>

record TCPHealthcheck =
  TCP_Config :: TCPHealthcheckConfiguration
  TCP_URL :: string
  TCP_t :: Tomb

text \<open>
  The peer of a TCP probe: the time the connection takes to be established, and the
  errors of the dial and of the close, if any.
\<close>

record tcp_peer =
  connect_needs :: Duration
  connect_err :: "error option"
  close_err :: "error option"

definition Dialer_DialContext :: "Context \<Rightarrow> tcp_peer \<Rightarrow> error option" where
  "Dialer_DialContext ctx peer =
     (if done_before ctx (connect_needs peer) then Some ''i/o timeout''
      else connect_err peer)"

definition TCPHealthcheck_timeoutCtx :: "TCPHealthcheck \<Rightarrow> Context" where
  "TCPHealthcheck_timeoutCtx h =
     context_WithTimeout (tomb_Context (TCP_t h)) (TCP_Timeout (TCP_Config h))"

definition TCPHealthcheck_Execute :: "tcp_peer \<Rightarrow> TCPHealthcheck \<Rightarrow> error option" where
  "TCPHealthcheck_Execute peer h =
     (case Dialer_DialContext (TCPHealthcheck_timeoutCtx h) peer of
        Some err \<Rightarrow> Some (errors_Wrap err (''TCP connection failed on '' @ TCP_URL h))
      | None \<Rightarrow>
          (case close_err peer of
             Some err \<Rightarrow> Some (errors_Wrap err ''Unable to close TCP connection'')
           | None \<Rightarrow> None))"

subsection \<open>Command\<close>

record CommandHealthcheck =
  Cmd_Config :: CommandHealthcheckConfiguration
  Cmd_URL :: string

text \<open>
  The subprocess of a command probe: an error on starting it if any, the time it
  runs, its exit code and what it writes on its standard error.
\<close>

record process =
  start_err :: "error option"
  run_needs :: Duration
  exit_code :: int
  stderr_text :: string

text \<open>
  The error of \<open>Cmd.Run\<close>: an \<open>*exec.ExitError\<close> with its exit code and text, or
  another error.
\<close>

datatype run_error = ExitError int string | other_error string

fun run_error_text :: "run_error \<Rightarrow> string" where
  "run_error_text (ExitError code text) = text"
| "run_error_text (other_error text) = text"

text \<open>Decimal digits of a number, for \<open>%d\<close>.\<close>

fun decimal :: "nat \<Rightarrow> string" where
  "decimal n =
     (if n < 10 then [char_of (48 + n)]
      else decimal (n div 10) @ [char_of (48 + n mod 10)])"

definition Sprintf_d :: "int \<Rightarrow> string" where
  "Sprintf_d i = (if i < 0 then ''-'' @ decimal (nat (- i)) else decimal (nat i))"

text \<open>
  \<open>exec.CommandContext(ctx, ...).Run()\<close>: a process still running when the context
  is cancelled is killed, and \<open>Run\<close> reports it as an exit error with code -1.
\<close>

definition Cmd_Run :: "Context \<Rightarrow> process \<Rightarrow> run_error option" where
  "Cmd_Run ctx p =
     (case start_err p of
        Some err \<Rightarrow> Some (other_error err)
      | None \<Rightarrow>
          (if done_before ctx 0 then Some (other_error ''context deadline exceeded'')
           else if done_before ctx (run_needs p) then Some (ExitError (- 1) ''signal: killed'')
           else if exit_code p \<noteq> 0 then
             Some (ExitError (exit_code p) (''exit status '' @ Sprintf_d (exit_code p)))
           else None))"

definition CommandHealthcheck_ctx :: "CommandHealthcheck \<Rightarrow> Context" where
  "CommandHealthcheck_ctx h =
     context_WithTimeout context_Background (Cmd_Timeout (Cmd_Config h) * time_Second)"

definition CommandHealthcheck_Execute :: "process \<Rightarrow> CommandHealthcheck \<Rightarrow> error option" where
  "CommandHealthcheck_Execute p h =
     (case Cmd_Run (CommandHealthcheck_ctx h) p of
        Some err \<Rightarrow>
          (let errorMsg =
                 (case err of
                    ExitError code text \<Rightarrow>
                      ''The command failed with code='' @ Sprintf_d code @
                      '', stderr='' @ stderr_text p
                  | other_error text \<Rightarrow> ''The command failed, stderr='' @ stderr_text p)
           in Some (errors_Wrap (run_error_text err) errorMsg))
      | None \<Rightarrow> None)"

section \<open>Validation: what each kind accepts\<close>

lemma Validate_None_iff:
  "Validate c = None \<longleftrightarrow>
     Base_Name (Cmd_Base c) \<noteq> [] \<and> Command c \<noteq> [] \<and> Cmd_Timeout c \<noteq> 0 \<and>
     (Base_OneOff (Cmd_Base c) \<or>
      (2 * time_Second \<le>s Base_Interval (Cmd_Base c) \<and>
       Cmd_Timeout c \<le>s Base_Interval (Cmd_Base c)))"
  by (auto simp: Validate_def word_sless_alt word_sle_eq)

lemma ValidateTCPConfig_None_iff:
  "ValidateTCPConfig t = None \<longleftrightarrow>
     TCP_Name t \<noteq> [] \<and> TCP_Target t \<noteq> [] \<and> TCP_Port t \<noteq> 0 \<and> TCP_Timeout t \<noteq> 0 \<and>
     2 * time_Second \<le>s TCP_Interval t \<and> TCP_Timeout t \<le>s TCP_Interval t"
  by (auto simp: ValidateTCPConfig_def word_sless_alt word_sle_eq)

lemma ValidateDNSConfig_None_iff:
  "ValidateDNSConfig d = None \<longleftrightarrow>
     DNS_Name d \<noteq> [] \<and> DNS_Domain d \<noteq> [] \<and> 5 \<le>s DNS_Interval d"
  by (auto simp: ValidateDNSConfig_def word_sless_alt word_sle_eq)

text \<open>
  Claim C2, as the code has it. Command: validation fails exactly when the name or
  the command is empty, the timeout is zero, or, for a probe that is not one-off, the
  interval is shorter than 2 seconds or shorter than the timeout. TCP, for a
  configuration that is not one-off: validation fails exactly when the name or the
  target is empty, the port or the timeout is zero, or the interval is shorter than
  2 seconds or shorter than the timeout. DNS (its configuration has no timeout):
  validation fails when the name or the domain is empty.
\<close>

theorem validation_by_kind:
  "(Validate c \<noteq> None \<longleftrightarrow>
      Base_Name (Cmd_Base c) = [] \<or> Command c = [] \<or> Cmd_Timeout c = 0 \<or>
      (\<not> Base_OneOff (Cmd_Base c) \<and>
       (Base_Interval (Cmd_Base c) <s 2 * time_Second \<or>
        Base_Interval (Cmd_Base c) <s Cmd_Timeout c))) \<and>
   (\<not> TCP_OneOff t \<longrightarrow>
      (ValidateTCPConfig t \<noteq> None \<longleftrightarrow>
         TCP_Name t = [] \<or> TCP_Target t = [] \<or> TCP_Port t = 0 \<or> TCP_Timeout t = 0 \<or>
         TCP_Interval t <s 2 * time_Second \<or> TCP_Interval t <s TCP_Timeout t)) \<and>
   (DNS_Name d = [] \<or> DNS_Domain d = [] \<longrightarrow> ValidateDNSConfig d \<noteq> None)"
proof (intro conjI impI)
  show "Validate c \<noteq> None \<longleftrightarrow>
      Base_Name (Cmd_Base c) = [] \<or> Command c = [] \<or> Cmd_Timeout c = 0 \<or>
      (\<not> Base_OneOff (Cmd_Base c) \<and>
       (Base_Interval (Cmd_Base c) <s 2 * time_Second \<or>
        Base_Interval (Cmd_Base c) <s Cmd_Timeout c))"
    by (auto simp: Validate_None_iff word_sless_alt word_sle_eq)
next
  show "ValidateTCPConfig t \<noteq> None \<longleftrightarrow>
         TCP_Name t = [] \<or> TCP_Target t = [] \<or> TCP_Port t = 0 \<or> TCP_Timeout t = 0 \<or>
         TCP_Interval t <s 2 * time_Second \<or> TCP_Interval t <s TCP_Timeout t"
    by (auto simp: ValidateTCPConfig_None_iff word_sless_alt word_sle_eq)
next
  assume "DNS_Name d = [] \<or> DNS_Domain d = []"
  then show "ValidateDNSConfig d \<noteq> None"
    by (auto simp: ValidateDNSConfig_None_iff)
qed

text \<open>
  The theorem at three configurations: a periodic command probe and a periodic TCP
  probe that pass, and a DNS probe with no domain, which is refused.
\<close>

theorem validation_by_kind_witness:
  "Validate \<lparr>Cmd_Base = \<lparr>Base_Name = ''c1'', Base_Description = [],
                Base_Interval = 5 * time_Second, Base_OneOff = False,
                Base_Source = ''api''\<rparr>,
              Command = ''ls'', Arguments = [], Cmd_Timeout = 3 * time_Second\<rparr> = None \<and>
   \<not> TCP_OneOff \<lparr>TCP_Name = ''t1'', TCP_Description = [], TCP_Target = ''127.0.0.1'',
                   TCP_Port = 80, TCP_Timeout = time_Second,
                   TCP_Interval = 2 * time_Second, TCP_OneOff = False\<rparr> \<and>
   ValidateTCPConfig \<lparr>TCP_Name = ''t1'', TCP_Description = [], TCP_Target = ''127.0.0.1'',
                       TCP_Port = 80, TCP_Timeout = time_Second,
                       TCP_Interval = 2 * time_Second, TCP_OneOff = False\<rparr> = None \<and>
   DNS_Domain \<lparr>DNS_Name = ''d1'', DNS_Description = [], DNS_Domain = [],
                DNS_Interval = 5 * time_Second, DNS_OneOff = False\<rparr> = [] \<and>
   ValidateDNSConfig \<lparr>DNS_Name = ''d1'', DNS_Description = [], DNS_Domain = [],
                       DNS_Interval = 5 * time_Second, DNS_OneOff = False\<rparr> \<noteq> None"
  using validation_by_kind
    [of "\<lparr>Cmd_Base = \<lparr>Base_Name = ''c1'', Base_Description = [],
                Base_Interval = 5 * time_Second, Base_OneOff = False,
                Base_Source = ''api''\<rparr>,
          Command = ''ls'', Arguments = [], Cmd_Timeout = 3 * time_Second\<rparr>"
        "\<lparr>TCP_Name = ''t1'', TCP_Description = [], TCP_Target = ''127.0.0.1'',
          TCP_Port = 80, TCP_Timeout = time_Second,
          TCP_Interval = 2 * time_Second, TCP_OneOff = False\<rparr>"
        "\<lparr>DNS_Name = ''d1'', DNS_Description = [], DNS_Domain = [],
          DNS_Interval = 5 * time_Second, DNS_OneOff = False\<rparr>"]
  by (simp add: time_Second_def word_sless_alt)

text \<open>
  Claim C2 as stated fails in three ways. A one-off TCP configuration with no
  interval is refused for its interval; a DNS configuration with an interval of one
  second is accepted; a command configuration with a name, a timeout and a valid
  interval is refused when its command is empty.
\<close>

theorem validation_counterexample:
  "ValidateTCPConfig \<lparr>TCP_Name = ''t1'', TCP_Description = [], TCP_Target = ''127.0.0.1'',
                       TCP_Port = 80, TCP_Timeout = time_Second,
                       TCP_Interval = 0, TCP_OneOff = True\<rparr>
     = Some ''The healthcheck interval should be greater than 2 second'' \<and>
   ValidateDNSConfig \<lparr>DNS_Name = ''d1'', DNS_Description = [], DNS_Domain = ''localhost'',
                       DNS_Interval = time_Second, DNS_OneOff = False\<rparr> = None \<and>
   Validate \<lparr>Cmd_Base = \<lparr>Base_Name = ''c1'', Base_Description = [],
                Base_Interval = 5 * time_Second, Base_OneOff = False,
                Base_Source = ''api''\<rparr>,
              Command = [], Arguments = [], Cmd_Timeout = 3 * time_Second\<rparr>
     = Some ''The healthcheck command is missing''"
  by (simp add: ValidateTCPConfig_def ValidateDNSConfig_def Validate_def errors_New_def
        time_Second_def word_sless_alt)

section \<open>The component: adding a probe\<close>

lemma update_fresh: "k \<notin> fst ` set al \<Longrightarrow> AList.update k v al = al @ [(k, v)]"
  by (induction al) auto

lemma delete_filter: "AList.delete k al = filter (\<lambda>(k', v). k' \<noteq> k) al"
  by (induction al) (auto simp: AList.delete_eq)

lemma named_after_delete:
  "list_all (\<lambda>(k, h). hc_Name h = k) al \<Longrightarrow>
   filter (\<lambda>(k, h). hc_Name h = n) (AList.delete n al) = []"
  by (induction al) (auto simp: AList.delete_eq)

lemma keyed_delete:
  "list_all (\<lambda>(k, h). hc_Name h = k) al \<Longrightarrow>
   list_all (\<lambda>(k, h). hc_Name h = k) (AList.delete n al)"
  by (induction al) (auto simp: AList.delete_eq)

lemma removeCheck_absent:
  "map_of (Healthchecks c) n = None \<Longrightarrow> removeCheck n c = (None, c)"
  by (simp add: removeCheck_def)

lemma removeCheck_stopped:
  "map_of (Healthchecks c) n = Some old \<Longrightarrow> hc_Stop old = None \<Longrightarrow>
   removeCheck n c =
     (None, record_calls [Stop_call old, map_delete n]
              (c\<lparr>Healthchecks := AList.delete n (Healthchecks c)\<rparr>))"
  by (simp add: removeCheck_def Stop_def)

lemma AddCheck_success_cases:
  assumes "AddCheck p c = (None, c')"
  shows "hc_Initialize p = None \<and> hc_Start p = None \<and>
         (\<forall>old. map_of (Healthchecks c) (hc_Name p) = Some old \<longrightarrow> hc_Stop old = None)"
  using assms
  by (auto simp: AddCheck_def Initialize_def Start_def removeCheck_def Stop_def hc_Name_def
        record_calls_def
      split: option.splits prod.splits if_splits)

lemma AddCheck_fresh:
  assumes "hc_Initialize p = None" "hc_Start p = None"
    "map_of (Healthchecks c) (hc_Name p) = None"
  shows "AddCheck p c =
     (None, c\<lparr>Healthchecks := Healthchecks c @
                  [(hc_Name p, p\<lparr>hc_initialized := True, hc_running := True\<rparr>)],
              calls := calls c @
                  [Initialize_call p, Lock, Start_call (p\<lparr>hc_initialized := True\<rparr>),
                   map_insert (hc_Name p) (p\<lparr>hc_initialized := True, hc_running := True\<rparr>),
                   Unlock]\<rparr>)"
proof -
  have k: "hc_Name p \<notin> fst ` set (Healthchecks c)"
    using assms(3) by (simp add: map_of_eq_None_iff)
  show ?thesis
    using assms
    by (simp add: AddCheck_def Initialize_def Start_def hc_Name_def record_calls_def
        removeCheck_absent [unfolded hc_Name_def] update_fresh [OF k [unfolded hc_Name_def]])
qed

lemma AddCheck_replace:
  assumes "hc_Initialize p = None" "hc_Start p = None"
    "map_of (Healthchecks c) (hc_Name p) = Some old" "hc_Stop old = None"
  shows "AddCheck p c =
     (None, c\<lparr>Healthchecks := AList.delete (hc_Name p) (Healthchecks c) @
                  [(hc_Name p, p\<lparr>hc_initialized := True, hc_running := True\<rparr>)],
              calls := calls c @
                  [Initialize_call p, Lock, Stop_call old, map_delete (hc_Name p),
                   Start_call (p\<lparr>hc_initialized := True\<rparr>),
                   map_insert (hc_Name p) (p\<lparr>hc_initialized := True, hc_running := True\<rparr>),
                   Unlock]\<rparr>)"
proof -
  have k: "hc_Name p \<notin> fst ` set (AList.delete (hc_Name p) (Healthchecks c))"
    by (simp add: delete_filter image_iff)
  have r: "removeCheck (hc_Name p) (record_calls [Initialize_call p, Lock] c) =
     (None, record_calls [Stop_call old, map_delete (hc_Name p)]
              ((record_calls [Initialize_call p, Lock] c)
                 \<lparr>Healthchecks := AList.delete (hc_Name p) (Healthchecks c)\<rparr>))"
    using removeCheck_stopped [of "record_calls [Initialize_call p, Lock] c" "hc_Name p" old] assms
    by (simp add: record_calls_def)
  show ?thesis
    using assms r
    by (simp add: AddCheck_def Initialize_def Start_def hc_Name_def record_calls_def
        update_fresh [OF k [unfolded hc_Name_def]])
qed

lemma AddCheck_lock_discipline:
  "take (length (calls c)) (calls (snd (AddCheck p c))) = calls c \<and>
   lock_held_for_changes False (drop (length (calls c)) (calls (snd (AddCheck p c))))"
  by (auto simp: AddCheck_def Initialize_def Start_def removeCheck_def Stop_def record_calls_def
      split: option.splits prod.splits)

subsection \<open>The map stays keyed by name\<close>

text \<open>
  A new component's map is keyed by name, and \<open>AddCheck\<close>, \<open>RemoveCheck\<close> and
  \<open>Stop\<close> keep it so, whatever they return.
\<close>

lemma keyed_by_name_New: "keyed_by_name (New ch)"
  by (simp add: keyed_by_name_def New_def)

lemma keyed_by_name_calls: "keyed_by_name (record_calls es c) = keyed_by_name c"
  by (simp add: keyed_by_name_def record_calls_def)

lemma keyed_by_name_delete:
  assumes "keyed_by_name c"
  shows "keyed_by_name (c\<lparr>Healthchecks := AList.delete n (Healthchecks c)\<rparr>)"
  using assms keyed_delete [of "Healthchecks c" n]
  by (simp add: keyed_by_name_def AList.distinct_delete)

lemma keyed_update:
  "list_all (\<lambda>(k, h). hc_Name h = k) al \<Longrightarrow> hc_Name v = n \<Longrightarrow>
   list_all (\<lambda>(k, h). hc_Name h = k) (AList.update n v al)"
  by (induction al) auto

lemma keyed_by_name_update:
  assumes "keyed_by_name c" and "hc_Name v = n"
  shows "keyed_by_name (c\<lparr>Healthchecks := AList.update n v (Healthchecks c)\<rparr>)"
  using assms keyed_update [of "Healthchecks c" v n]
  by (simp add: keyed_by_name_def AList.distinct_update)

lemma keyed_by_name_removeCheck:
  assumes "keyed_by_name c"
  shows "keyed_by_name (snd (removeCheck n c))"
  using assms keyed_by_name_delete [OF assms, of n]
  by (auto simp: removeCheck_def Stop_def keyed_by_name_calls split: option.splits)

lemma keyed_by_name_RemoveCheck:
  assumes "keyed_by_name c"
  shows "keyed_by_name (snd (RemoveCheck n c))"
proof -
  have "keyed_by_name (record_calls [Lock] c)"
    using assms by (simp add: keyed_by_name_calls)
  from keyed_by_name_removeCheck [OF this, of n] show ?thesis
    by (cases "removeCheck n (record_calls [Lock] c)")
       (simp add: RemoveCheck_def keyed_by_name_calls)
qed

lemma keyed_by_name_AddCheck:
  assumes "keyed_by_name c"
  shows "keyed_by_name (snd (AddCheck p c))"
proof -
  let ?c0 = "record_calls [Initialize_call p, Lock] c"
  have k0: "keyed_by_name ?c0"
    using assms by (simp add: keyed_by_name_calls)
  obtain r c1 where rc: "removeCheck (hc_Name p) ?c0 = (r, c1)"
    by (cases "removeCheck (hc_Name p) ?c0")
  have k1: "keyed_by_name c1"
    using keyed_by_name_removeCheck [OF k0, of "hc_Name p"] rc by simp
  have k2: "keyed_by_name
     (c1\<lparr>Healthchecks := AList.update (hc_Name p)
           (p\<lparr>hc_initialized := True, hc_running := True\<rparr>) (Healthchecks c1)\<rparr>)"
    by (rule keyed_by_name_update [OF k1]) (simp add: hc_Name_def)
  show ?thesis
    using assms k1 k2 rc
    by (auto simp: AddCheck_def Initialize_def Start_def hc_Name_def keyed_by_name_calls
        split: option.splits)
qed

lemma stop_each_keys: "map fst (fst (snd (stop_each hs))) = map fst hs"
  by (induction hs) (auto simp: Stop_def split: option.splits prod.splits)

lemma stop_each_named:
  "list_all (\<lambda>(k, h). hc_Name h = k) hs \<Longrightarrow>
   list_all (\<lambda>(k, h). hc_Name h = k) (fst (snd (stop_each hs)))"
  by (induction hs) (auto simp: Stop_def hc_Name_def split: option.splits prod.splits)

lemma keyed_by_name_Component_Stop:
  assumes "keyed_by_name c"
  shows "keyed_by_name (snd (Component_Stop c))"
  using assms stop_each_keys [of "Healthchecks c"] stop_each_named [of "Healthchecks c"]
  by (cases "stop_each (Healthchecks c)")
     (simp add: Component_Stop_def keyed_by_name_def record_calls_def)

subsection \<open>Replacing a probe\<close>

text \<open>
  Claim C1. Whatever \<open>AddCheck\<close> returns, the calls it makes respect the lock: they
  extend the calls made before, and every stop, start and change of the map lies
  inside one locked section. When it succeeds, exactly one entry of the map carries
  the name of \<open>p\<close>, and it is \<open>p\<close>, initialised and running; the map is still keyed by
  name; and if a probe \<open>old\<close> was resident under that name, the calls are, in this
  order: initialise \<open>p\<close>, lock, stop \<open>old\<close>, delete the name, start \<open>p\<close>, insert \<open>p\<close>,
  unlock.
\<close>

theorem AddCheck_atomic_swap:
  assumes "keyed_by_name c" and "AddCheck p c = (r, c')"
  shows "take (length (calls c)) (calls c') = calls c \<and>
         lock_held_for_changes False (drop (length (calls c)) (calls c')) \<and>
         (r = None \<longrightarrow>
            filter (\<lambda>(k, h). hc_Name h = hc_Name p) (Healthchecks c') =
              [(hc_Name p, p\<lparr>hc_initialized := True, hc_running := True\<rparr>)] \<and>
            keyed_by_name c' \<and>
            (\<forall>old. map_of (Healthchecks c) (hc_Name p) = Some old \<longrightarrow>
               drop (length (calls c)) (calls c') =
                 [Initialize_call p, Lock, Stop_call old, map_delete (hc_Name p),
                  Start_call (p\<lparr>hc_initialized := True\<rparr>),
                  map_insert (hc_Name p) (p\<lparr>hc_initialized := True, hc_running := True\<rparr>),
                  Unlock]))"
proof (intro conjI impI)
  show "take (length (calls c)) (calls c') = calls c"
    using AddCheck_lock_discipline [of c p] assms(2) by simp
  show "lock_held_for_changes False (drop (length (calls c)) (calls c'))"
    using AddCheck_lock_discipline [of c p] assms(2) by simp
next
  assume "r = None"
  with assms(2) have ok: "AddCheck p c = (None, c')" by simp
  note sc = AddCheck_success_cases [OF ok]
  let ?N = "hc_Name p"
  let ?p2 = "p\<lparr>hc_initialized := True, hc_running := True\<rparr>"
  have keyed: "list_all (\<lambda>(k, h). hc_Name h = k) (Healthchecks c)"
    and dist: "distinct (map fst (Healthchecks c))"
    using assms(1) by (simp_all add: keyed_by_name_def)
  have name2: "hc_Name ?p2 = ?N" by (simp add: hc_Name_def)
  have hs: "Healthchecks c' = AList.delete ?N (Healthchecks c) @ [(?N, ?p2)]"
  proof (cases "map_of (Healthchecks c) ?N")
    case None
    have "AList.delete ?N (Healthchecks c) = Healthchecks c"
      using None by (simp add: map_of_eq_None_iff)
    then show ?thesis
      using AddCheck_fresh [of p c] sc None ok by simp
  next
    case (Some old)
    then show ?thesis
      using AddCheck_replace [of p c old] sc ok by simp
  qed
  show "filter (\<lambda>(k, h). hc_Name h = ?N) (Healthchecks c') = [(?N, ?p2)]"
    by (simp add: hs named_after_delete [OF keyed] name2)
  show "keyed_by_name c'"
    unfolding keyed_by_name_def hs
    using keyed_delete [OF keyed, of ?N] dist
    by (auto simp: name2 delete_filter distinct_map_filter)
  show "\<forall>old. map_of (Healthchecks c) ?N = Some old \<longrightarrow>
               drop (length (calls c)) (calls c') =
                 [Initialize_call p, Lock, Stop_call old, map_delete ?N,
                  Start_call (p\<lparr>hc_initialized := True\<rparr>),
                  map_insert ?N ?p2, Unlock]"
  proof (intro allI impI)
    fix old assume "map_of (Healthchecks c) ?N = Some old"
    then show "drop (length (calls c)) (calls c') =
                 [Initialize_call p, Lock, Stop_call old, map_delete ?N,
                  Start_call (p\<lparr>hc_initialized := True\<rparr>),
                  map_insert ?N ?p2, Unlock]"
      using AddCheck_replace [of p c old] sc ok by simp
  qed
qed

text \<open>
  The theorem where a running probe named \<open>x\<close> is resident and a new probe of the
  same name is added: the old one is stopped and deleted under the lock, the new one
  is the only resident afterwards.
\<close>

theorem AddCheck_atomic_swap_witness:
  "keyed_by_name \<lparr>Healthchecks = [(''x'', example_probe ''x'' None None True)],
                   ChanResult = [], calls = []\<rparr> \<and>
   fst (AddCheck (example_probe ''x'' None (Some ''late'') False)
          \<lparr>Healthchecks = [(''x'', example_probe ''x'' None None True)],
           ChanResult = [], calls = []\<rparr>) = None \<and>
   map_of [(''x'', example_probe ''x'' None None True)] ''x''
     = Some (example_probe ''x'' None None True) \<and>
   Healthchecks (snd (AddCheck (example_probe ''x'' None (Some ''late'') False)
          \<lparr>Healthchecks = [(''x'', example_probe ''x'' None None True)],
           ChanResult = [], calls = []\<rparr>))
     = [(''x'', example_probe ''x'' None (Some ''late'') True)] \<and>
   calls (snd (AddCheck (example_probe ''x'' None (Some ''late'') False)
          \<lparr>Healthchecks = [(''x'', example_probe ''x'' None None True)],
           ChanResult = [], calls = []\<rparr>))
     = [Initialize_call (example_probe ''x'' None (Some ''late'') False), Lock,
        Stop_call (example_probe ''x'' None None True), map_delete ''x'',
        Start_call ((example_probe ''x'' None (Some ''late'') False)\<lparr>hc_initialized := True\<rparr>),
        map_insert ''x'' (example_probe ''x'' None (Some ''late'') True), Unlock]"
  using AddCheck_atomic_swap
    [of "\<lparr>Healthchecks = [(''x'', example_probe ''x'' None None True)],
          ChanResult = [], calls = []\<rparr>"
        "example_probe ''x'' None (Some ''late'') False"
        "fst (AddCheck (example_probe ''x'' None (Some ''late'') False)
          \<lparr>Healthchecks = [(''x'', example_probe ''x'' None None True)],
           ChanResult = [], calls = []\<rparr>)"
        "snd (AddCheck (example_probe ''x'' None (Some ''late'') False)
          \<lparr>Healthchecks = [(''x'', example_probe ''x'' None None True)],
           ChanResult = [], calls = []\<rparr>)"]
  by (simp add: keyed_by_name_def example_probe_def hc_Name_def AddCheck_def Initialize_def
      Start_def Stop_def removeCheck_def record_calls_def)

lemma AddCheck_start_fails:
  assumes "hc_Initialize p = None" "hc_Start p = Some e"
    "map_of (Healthchecks c) (hc_Name p) = Some old" "hc_Stop old = None"
  shows "AddCheck p c =
     (Some (errors_Wrap e (''Fail to start healthcheck '' @ hc_Name p)),
      c\<lparr>Healthchecks := AList.delete (hc_Name p) (Healthchecks c),
        calls := calls c @
          [Initialize_call p, Lock, Stop_call old, map_delete (hc_Name p),
           Start_call (p\<lparr>hc_initialized := True\<rparr>), Unlock]\<rparr>)"
proof -
  have r: "removeCheck (hc_Name p) (record_calls [Initialize_call p, Lock] c) =
     (None, record_calls [Stop_call old, map_delete (hc_Name p)]
              ((record_calls [Initialize_call p, Lock] c)
                 \<lparr>Healthchecks := AList.delete (hc_Name p) (Healthchecks c)\<rparr>))"
    using removeCheck_stopped [of "record_calls [Initialize_call p, Lock] c" "hc_Name p" old] assms
    by (simp add: record_calls_def)
  show ?thesis
    using assms r
    by (simp add: AddCheck_def Initialize_def Start_def hc_Name_def record_calls_def)
qed

text \<open>
  Claim C10. A probe \<open>old\<close> is resident under the name of \<open>p\<close>, \<open>p\<close> initialises,
  \<open>old\<close> stops, and the start of \<open>p\<close> fails with \<open>e\<close>. Then \<open>AddCheck\<close> returns the
  start error, and afterwards the map has no entry under that name and no probe of
  that name: \<open>old\<close> was stopped and deleted before the start was tried, and the map is
  the old one less that name.
\<close>

theorem AddCheck_start_failure_leaves_name_absent:
  assumes "keyed_by_name c"
    and "map_of (Healthchecks c) (hc_Name p) = Some old"
    and "hc_Initialize p = None" and "hc_Stop old = None" and "hc_Start p = Some e"
  shows "fst (AddCheck p c) = Some (errors_Wrap e (''Fail to start healthcheck '' @ hc_Name p)) \<and>
         map_of (Healthchecks (snd (AddCheck p c))) (hc_Name p) = None \<and>
         filter (\<lambda>(k, h). hc_Name h = hc_Name p) (Healthchecks (snd (AddCheck p c))) = [] \<and>
         Healthchecks (snd (AddCheck p c)) = AList.delete (hc_Name p) (Healthchecks c) \<and>
         calls (snd (AddCheck p c)) = calls c @
           [Initialize_call p, Lock, Stop_call old, map_delete (hc_Name p),
            Start_call (p\<lparr>hc_initialized := True\<rparr>), Unlock]"
proof -
  have keyed: "list_all (\<lambda>(k, h). hc_Name h = k) (Healthchecks c)"
    using assms(1) by (simp add: keyed_by_name_def)
  show ?thesis
    by (simp add: AddCheck_start_fails [OF assms(3) assms(5) assms(2) assms(4)]
        named_after_delete [OF keyed] AList.delete_conv')
qed

text \<open>
  The theorem where a running probe named \<open>x\<close> is resident and the start of its
  replacement fails: the map is left empty.
\<close>

theorem AddCheck_start_failure_witness:
  "keyed_by_name \<lparr>Healthchecks = [(''x'', example_probe ''x'' None None True)],
                   ChanResult = [], calls = []\<rparr> \<and>
   map_of [(''x'', example_probe ''x'' None None True)] ''x''
     = Some (example_probe ''x'' None None True) \<and>
   hc_Initialize (example_probe ''x'' (Some ''no driver'') None False) = None \<and>
   hc_Stop (example_probe ''x'' None None True) = None \<and>
   hc_Start (example_probe ''x'' (Some ''no driver'') None False) = Some ''no driver'' \<and>
   AddCheck (example_probe ''x'' (Some ''no driver'') None False)
     \<lparr>Healthchecks = [(''x'', example_probe ''x'' None None True)],
      ChanResult = [], calls = []\<rparr>
   = (Some ''Fail to start healthcheck x: no driver'',
      \<lparr>Healthchecks = [], ChanResult = [],
       calls = [Initialize_call (example_probe ''x'' (Some ''no driver'') None False), Lock,
                Stop_call (example_probe ''x'' None None True), map_delete ''x'',
                Start_call ((example_probe ''x'' (Some ''no driver'') None False)
                              \<lparr>hc_initialized := True\<rparr>),
                Unlock]\<rparr>)"
  using AddCheck_start_failure_leaves_name_absent
    [of "\<lparr>Healthchecks = [(''x'', example_probe ''x'' None None True)],
          ChanResult = [], calls = []\<rparr>"
        "example_probe ''x'' (Some ''no driver'') None False"
        "example_probe ''x'' None None True" "''no driver''"]
  by (simp add: keyed_by_name_def example_probe_def hc_Name_def AddCheck_def Initialize_def
      Start_def Stop_def removeCheck_def record_calls_def errors_Wrap_def)

section \<open>The component: stopping\<close>

lemma stop_each_all:
  "list_all stop_succeeds hs \<Longrightarrow>
   stop_each hs = (None, map stopped hs, map (\<lambda>(k, h). Stop_call h) hs)"
  by (induction hs) (auto simp: Stop_def stopped_def stop_succeeds_def)

lemma stop_each_first_failure:
  "list_all stop_succeeds pre \<Longrightarrow> hc_Stop h = Some e \<Longrightarrow>
   stop_each (pre @ (k, h) # post) =
     (Some (errors_Wrap e ''Fail to stop the healthcheck component''),
      map stopped pre @ (k, h) # post,
      map (\<lambda>(k, h). Stop_call h) pre @ [Stop_call h])"
  by (induction pre) (auto simp: Stop_def stopped_def stop_succeeds_def)

text \<open>
  Claim C5, as the code has it. When the \<open>Stop\<close> of every resident probe succeeds,
  the component's \<open>Stop\<close> stops them all, in the order of the iteration, under the
  lock, and returns no error. When the probes are visited in the order \<open>pre\<close>, \<open>h\<close>,
  \<open>post\<close>, those of \<open>pre\<close> stop and the \<open>Stop\<close> of \<open>h\<close> fails with \<open>e\<close>, the component's
  \<open>Stop\<close> returns that error, wrapped; the probes of \<open>pre\<close> are stopped, and those of
  \<open>post\<close> are left as they were, with no call made on them.
\<close>

theorem Component_Stop_until_first_failure:
  "(list_all stop_succeeds (Healthchecks c) \<longrightarrow>
      Component_Stop c =
        (None, c\<lparr>Healthchecks := map stopped (Healthchecks c),
                 calls := calls c @ [Lock] @
                   map (\<lambda>(k, h). Stop_call h) (Healthchecks c) @ [Unlock]\<rparr>)) \<and>
   (Healthchecks d = pre @ (k, h) # post \<and> list_all stop_succeeds pre \<and> hc_Stop h = Some e \<longrightarrow>
      Component_Stop d =
        (Some (errors_Wrap e ''Fail to stop the healthcheck component''),
         d\<lparr>Healthchecks := map stopped pre @ (k, h) # post,
           calls := calls d @ [Lock] @
             map (\<lambda>(k, h). Stop_call h) pre @ [Stop_call h, Unlock]\<rparr>))"
  by (auto simp: Component_Stop_def stop_each_all stop_each_first_failure record_calls_def)

text \<open>
  The theorem at a component whose two probes stop, and at one whose second probe
  of three does not: the third is still running afterwards.
\<close>

theorem Component_Stop_witness:
  "list_all stop_succeeds [(''a'', example_probe ''a'' None None True),
                           (''b'', example_probe ''b'' None None True)] \<and>
   Component_Stop \<lparr>Healthchecks = [(''a'', example_probe ''a'' None None True),
                                    (''b'', example_probe ''b'' None None True)],
                    ChanResult = [], calls = []\<rparr>
   = (None,
      \<lparr>Healthchecks = [(''a'', (example_probe ''a'' None None True)\<lparr>hc_running := False\<rparr>),
                       (''b'', (example_probe ''b'' None None True)\<lparr>hc_running := False\<rparr>)],
       ChanResult = [],
       calls = [Lock, Stop_call (example_probe ''a'' None None True),
                Stop_call (example_probe ''b'' None None True), Unlock]\<rparr>) \<and>
   list_all stop_succeeds [(''a'', example_probe ''a'' None None True)] \<and>
   hc_Stop (example_probe ''b'' None (Some ''boom'') True) = Some ''boom'' \<and>
   Component_Stop \<lparr>Healthchecks = [(''a'', example_probe ''a'' None None True),
                                    (''b'', example_probe ''b'' None (Some ''boom'') True),
                                    (''c'', example_probe ''c'' None None True)],
                    ChanResult = [], calls = []\<rparr>
   = (Some ''Fail to stop the healthcheck component: boom'',
      \<lparr>Healthchecks = [(''a'', (example_probe ''a'' None None True)\<lparr>hc_running := False\<rparr>),
                       (''b'', example_probe ''b'' None (Some ''boom'') True),
                       (''c'', example_probe ''c'' None None True)],
       ChanResult = [],
       calls = [Lock, Stop_call (example_probe ''a'' None None True),
                Stop_call (example_probe ''b'' None (Some ''boom'') True), Unlock]\<rparr>)"
  using Component_Stop_until_first_failure
    [of "\<lparr>Healthchecks = [(''a'', example_probe ''a'' None None True),
                          (''b'', example_probe ''b'' None None True)],
          ChanResult = [], calls = []\<rparr>"
        "\<lparr>Healthchecks = [(''a'', example_probe ''a'' None None True),
                          (''b'', example_probe ''b'' None (Some ''boom'') True),
                          (''c'', example_probe ''c'' None None True)],
          ChanResult = [], calls = []\<rparr>"
        "[(''a'', example_probe ''a'' None None True)]"
        "''b''" "example_probe ''b'' None (Some ''boom'') True"
        "[(''c'', example_probe ''c'' None None True)]" "''boom''"]
  by (simp add: stop_succeeds_def stopped_def example_probe_def errors_Wrap_def)

text \<open>
  Claim C5 as stated fails. With a probe \<open>a\<close> whose \<open>Stop\<close> fails visited before a
  running probe \<open>b\<close>, the component's \<open>Stop\<close> returns the error of \<open>a\<close>, makes no call
  on \<open>b\<close> and leaves it running. With two probes whose \<open>Stop\<close> fails, one of them is
  never called, whichever is visited first.
\<close>

theorem Component_Stop_counterexample:
  "Component_Stop \<lparr>Healthchecks = [(''a'', example_probe ''a'' None (Some ''boom'') True),
                                    (''b'', example_probe ''b'' None None True)],
                    ChanResult = [], calls = []\<rparr>
   = (Some ''Fail to stop the healthcheck component: boom'',
      \<lparr>Healthchecks = [(''a'', example_probe ''a'' None (Some ''boom'') True),
                       (''b'', example_probe ''b'' None None True)],
       ChanResult = [],
       calls = [Lock, Stop_call (example_probe ''a'' None (Some ''boom'') True), Unlock]\<rparr>) \<and>
   hc_running (example_probe ''b'' None None True) \<and>
   calls (snd (Component_Stop
      \<lparr>Healthchecks = [(''a'', example_probe ''a'' None (Some ''boom'') True),
                       (''b'', example_probe ''b'' None (Some ''bang'') True)],
       ChanResult = [], calls = []\<rparr>))
   = [Lock, Stop_call (example_probe ''a'' None (Some ''boom'') True), Unlock] \<and>
   calls (snd (Component_Stop
      \<lparr>Healthchecks = [(''b'', example_probe ''b'' None (Some ''bang'') True),
                       (''a'', example_probe ''a'' None (Some ''boom'') True)],
       ChanResult = [], calls = []\<rparr>))
   = [Lock, Stop_call (example_probe ''b'' None (Some ''bang'') True), Unlock]"
  by (simp add: Component_Stop_def Stop_def record_calls_def example_probe_def errors_Wrap_def)

section \<open>Results of executions\<close>

text \<open>
  Claim C7, as the code has it. The result built from a probe, the error of its
  execution and the time of emission has four fields: the probe's name, whether the
  error is \<open>nil\<close>, the time of emission, and \<open>success\<close> or the error's text. It
  has no duration and no source.
\<close>

theorem NewResult_fields:
  "NewResult h err now =
     \<lparr>Result_Name = hc_Name h, Success = (err = None), Timestamp = now,
      message = (case err of None \<Rightarrow> ''success'' | Some e \<Rightarrow> e)\<rparr>"
  by (cases err) (simp_all add: NewResult_def)

text \<open>
  Claim C7 as stated fails: a probe whose source is \<open>api\<close> and whose execution took
  one second, and a probe of the same name whose source is \<open>file\<close> and whose
  execution took three seconds, give the same result. The result carries neither
  the duration nor the source.
\<close>

theorem NewResult_counterexample:
  "NewResult (example_one_off ''p'' \<lparr>exec_err = None, exec_elapsed = time_Second\<rparr>)
     (exec_err \<lparr>exec_err = None, exec_elapsed = time_Second\<rparr>) 100
   = NewResult (SetSource ''file''
        (example_one_off ''p'' \<lparr>exec_err = None, exec_elapsed = 3 * time_Second\<rparr>))
     (exec_err \<lparr>exec_err = None, exec_elapsed = 3 * time_Second\<rparr>) 100 \<and>
   exec_elapsed \<lparr>exec_err = None, exec_elapsed = time_Second\<rparr>
     \<noteq> exec_elapsed \<lparr>exec_err = None, exec_elapsed = 3 * time_Second\<rparr> \<and>
   Base_Source (hc_Base (example_one_off ''p'' \<lparr>exec_err = None, exec_elapsed = time_Second\<rparr>))
     \<noteq> Base_Source (hc_Base (SetSource ''file''
           (example_one_off ''p'' \<lparr>exec_err = None, exec_elapsed = 3 * time_Second\<rparr>)))"
  by (simp add: NewResult_def example_one_off_def SetSource_def hc_Name_def time_Second_def)

section \<open>One-off execution\<close>

text \<open>
  For contrast, a probe that is not one-off goes through \<open>AddCheck\<close>: it is started
  and stored in the map.
\<close>

lemma handleCheck_registers_periodic_probe:
  "handleCheck_B (example_probe ''x'' None None False)
     \<lparr>healthcheck = New [], BasicAuth_Username = [], BasicAuth_Password = []\<rparr>
   = (JSON 201 (BasicResponse_Messages [''Healthcheck successfully added'']),
      \<lparr>healthcheck =
         \<lparr>Healthchecks = [(''x'', example_probe ''x'' None None True)], ChanResult = [],
          calls = [Initialize_call (example_probe ''x'' None None False), Lock,
                   Start_call ((example_probe ''x'' None None False)\<lparr>hc_initialized := True\<rparr>),
                   map_insert ''x'' (example_probe ''x'' None None True), Unlock]\<rparr>,
       BasicAuth_Username = [], BasicAuth_Password = []\<rparr>)"
  by (simp add: handleCheck_B_def addCheck_def AddCheck_def removeCheck_def Initialize_def
      Start_def SetSource_def SourceAPI_def example_probe_def New_def hc_Name_def
      record_calls_def newResponse_def)

text \<open>
  Claim C8, as the code has it. For a one-off probe \<open>check\<close> whose \<open>Initialize\<close>
  succeeds, both versions of the handler call \<open>Initialize\<close>, then \<open>Execute\<close>, and
  nothing else. Version A answers 201 with a result that carries the probe's name,
  whether \<open>Execute\<close> returned \<open>nil\<close>, the time, the time the call took, the source
  \<open>one-off\<close> and the message. Version B answers 201 with a message when \<open>Execute\<close>
  returned \<open>nil\<close> and with an internal error otherwise; it builds no result. For a
  one-off probe \<open>failing\<close> whose \<open>Initialize\<close> fails, both versions answer with an
  error and do not call \<open>Execute\<close>. For every one-off probe \<open>any\<close>, the component's
  map and its result channel are the same afterwards, in both versions.
\<close>

theorem oneOff_returns_without_registering:
  "(Base_OneOff (hc_Base check) \<and> hc_Initialize check = None \<longrightarrow>
      handleCheck_A start check c =
        (JSON 201 (Result_body
           \<lparr>SR_Name = Base_Name (hc_Base check),
            SR_Success = (exec_err (hc_Execute check) = None),
            SR_Timestamp = start + sint (exec_elapsed (hc_Execute check)),
            SR_Duration = exec_elapsed (hc_Execute check),
            SR_Source = ''one-off'',
            SR_message = (case exec_err (hc_Execute check) of
                            None \<Rightarrow> ''success'' | Some e \<Rightarrow> e)\<rparr>),
         http_record_calls
           [Initialize_call check, Execute_call (check\<lparr>hc_initialized := True\<rparr>)] c) \<and>
      handleCheck_B check c =
        ((case exec_err (hc_Execute check) of
            None \<Rightarrow>
              JSON 201 (newResponse (''One-off healthcheck '' @ Base_Name (hc_Base check) @
                                       '' successfully executed''))
          | Some e \<Rightarrow>
              corbierror_New (''Execution of one off healthcheck '' @
                                Base_Name (hc_Base check) @ '' failed: '' @ e) Internal True),
         http_record_calls
           [Initialize_call check, Execute_call (check\<lparr>hc_initialized := True\<rparr>)] c)) \<and>
   (Base_OneOff (hc_Base failing) \<and> hc_Initialize failing = Some e' \<longrightarrow>
      handleCheck_A start failing c =
        (JSON 500 (BasicResponse (''Fail to initialize one off healthcheck '' @
                     Base_Name (hc_Base failing) @ '': '' @ e')),
         http_record_calls [Initialize_call failing] c) \<and>
      handleCheck_B failing c =
        (corbierror_New (''Fail to initialize one off healthcheck '' @
                           Base_Name (hc_Base failing) @ '': '' @ e') Internal True,
         http_record_calls [Initialize_call failing] c)) \<and>
   (Base_OneOff (hc_Base any) \<longrightarrow>
      Healthchecks (healthcheck (snd (handleCheck_A start any c))) = Healthchecks (healthcheck c) \<and>
      ChanResult (healthcheck (snd (handleCheck_A start any c))) = ChanResult (healthcheck c) \<and>
      Healthchecks (healthcheck (snd (handleCheck_B any c))) = Healthchecks (healthcheck c) \<and>
      ChanResult (healthcheck (snd (handleCheck_B any c))) = ChanResult (healthcheck c))"
  by (auto simp: handleCheck_A_def handleCheck_B_def oneOff_A_def oneOff_B_def Initialize_def
        NewResult3_def http_record_calls_def record_calls_def Let_def
      split: option.splits)

text \<open>
  The theorem at a one-off probe whose execution fails after two seconds, and at one
  whose initialisation fails.
\<close>

theorem oneOff_witness:
  "Base_OneOff (hc_Base (example_one_off ''p''
      \<lparr>exec_err = Some ''refused'', exec_elapsed = 2 * time_Second\<rparr>)) \<and>
   hc_Initialize (example_one_off ''p''
      \<lparr>exec_err = Some ''refused'', exec_elapsed = 2 * time_Second\<rparr>) = None \<and>
   handleCheck_A 1000
     (example_one_off ''p'' \<lparr>exec_err = Some ''refused'', exec_elapsed = 2 * time_Second\<rparr>)
     \<lparr>healthcheck = New [], BasicAuth_Username = [], BasicAuth_Password = []\<rparr>
   = (JSON 201 (Result_body
        \<lparr>SR_Name = ''p'', SR_Success = False, SR_Timestamp = 2000001000,
         SR_Duration = 2000000000, SR_Source = ''one-off'', SR_message = ''refused''\<rparr>),
      \<lparr>healthcheck =
         \<lparr>Healthchecks = [], ChanResult = [],
          calls = [Initialize_call (example_one_off ''p''
                     \<lparr>exec_err = Some ''refused'', exec_elapsed = 2 * time_Second\<rparr>),
                   Execute_call ((example_one_off ''p''
                     \<lparr>exec_err = Some ''refused'', exec_elapsed = 2 * time_Second\<rparr>)
                       \<lparr>hc_initialized := True\<rparr>)]\<rparr>,
       BasicAuth_Username = [], BasicAuth_Password = []\<rparr>) \<and>
   fst (handleCheck_B
     (example_one_off ''p'' \<lparr>exec_err = Some ''refused'', exec_elapsed = 2 * time_Second\<rparr>)
     \<lparr>healthcheck = New [], BasicAuth_Username = [], BasicAuth_Password = []\<rparr>)
   = corbierror_New ''Execution of one off healthcheck p failed: refused'' Internal True \<and>
   hc_Initialize ((example_one_off ''q'' \<lparr>exec_err = None, exec_elapsed = 0\<rparr>)
                    \<lparr>hc_Initialize := Some ''bad url''\<rparr>) = Some ''bad url'' \<and>
   fst (handleCheck_A 1000
     ((example_one_off ''q'' \<lparr>exec_err = None, exec_elapsed = 0\<rparr>)
        \<lparr>hc_Initialize := Some ''bad url''\<rparr>)
     \<lparr>healthcheck = New [], BasicAuth_Username = [], BasicAuth_Password = []\<rparr>)
   = JSON 500 (BasicResponse ''Fail to initialize one off healthcheck q: bad url'') \<and>
   Healthchecks (healthcheck (snd (handleCheck_B
     (example_one_off ''p'' \<lparr>exec_err = Some ''refused'', exec_elapsed = 2 * time_Second\<rparr>)
     \<lparr>healthcheck = New [], BasicAuth_Username = [], BasicAuth_Password = []\<rparr>))) = []"
  using oneOff_returns_without_registering
    [of "example_one_off ''p'' \<lparr>exec_err = Some ''refused'', exec_elapsed = 2 * time_Second\<rparr>"
        1000
        "\<lparr>healthcheck = New [], BasicAuth_Username = [], BasicAuth_Password = []\<rparr>"
        "(example_one_off ''q'' \<lparr>exec_err = None, exec_elapsed = 0\<rparr>)
           \<lparr>hc_Initialize := Some ''bad url''\<rparr>"
        "''bad url''"
        "example_one_off ''p'' \<lparr>exec_err = Some ''refused'', exec_elapsed = 2 * time_Second\<rparr>"]
  by (simp add: example_one_off_def New_def http_record_calls_def record_calls_def
      time_Second_def)

text \<open>
  Claim C8 as stated fails in version B: for a one-off probe that initialises and
  executes without error, the caller gets a message. No result is built, and the
  call is not timed.
\<close>

theorem oneOff_B_counterexample:
  "handleCheck_B
     (example_one_off ''p'' \<lparr>exec_err = None, exec_elapsed = 2 * time_Second\<rparr>)
     \<lparr>healthcheck = New [], BasicAuth_Username = [], BasicAuth_Password = []\<rparr>
   = (JSON 201 (BasicResponse_Messages [''One-off healthcheck p successfully executed'']),
      \<lparr>healthcheck =
         \<lparr>Healthchecks = [], ChanResult = [],
          calls = [Initialize_call (example_one_off ''p''
                     \<lparr>exec_err = None, exec_elapsed = 2 * time_Second\<rparr>),
                   Execute_call ((example_one_off ''p''
                     \<lparr>exec_err = None, exec_elapsed = 2 * time_Second\<rparr>)
                       \<lparr>hc_initialized := True\<rparr>)]\<rparr>,
       BasicAuth_Username = [], BasicAuth_Password = []\<rparr>)"
  by (simp add: handleCheck_B_def oneOff_B_def Initialize_def example_one_off_def New_def
      newResponse_def http_record_calls_def record_calls_def)

section \<open>Basic Auth\<close>

lemma BasicAuth_validator_A_iff:
  "fst (BasicAuth_validator_A c username password) \<longleftrightarrow>
     username = BasicAuth_Username c \<and> password = BasicAuth_Password c"
  by (simp add: BasicAuth_validator_A_def subtle_ConstantTimeCompare_def)

lemma BasicAuth_validator_B_always:
  "BasicAuth_validator_B c username password = (True, None)"
  by (simp add: BasicAuth_validator_B_def)

text \<open>
  Claim C9 at a wrong password: version B of the validator lets the request pass,
  version A refuses it.
\<close>

theorem BasicAuth_validator_B_grants_on_mismatch:
  "BasicAuth_validator_B
     \<lparr>healthcheck = New [], BasicAuth_Username = ''admin'', BasicAuth_Password = ''secret''\<rparr>
     ''admin'' ''wrong'' = (True, None) \<and>
   BasicAuth_validator_A
     \<lparr>healthcheck = New [], BasicAuth_Username = ''admin'', BasicAuth_Password = ''secret''\<rparr>
     ''admin'' ''wrong'' = (False, None)"
  by (simp add: BasicAuth_validator_A_def BasicAuth_validator_B_def subtle_ConstantTimeCompare_def)

section \<open>The timeout of an execution\<close>

lemma TCPHealthcheck_timeoutCtx_exact:
  "\<not> dying (TCP_t h) \<Longrightarrow> TCPHealthcheck_timeoutCtx h = Some (TCP_Timeout (TCP_Config h))"
  by (simp add: TCPHealthcheck_timeoutCtx_def tomb_Context_def context_WithTimeout_def)

lemma CommandHealthcheck_ctx_scaled:
  "CommandHealthcheck_ctx h = Some (Cmd_Timeout (Cmd_Config h) * time_Second)"
  by (simp add: CommandHealthcheck_ctx_def context_Background_def context_WithTimeout_def)

lemma TCPHealthcheck_Execute_times_out:
  assumes "\<not> dying (TCP_t h)" and "TCP_Timeout (TCP_Config h) <s connect_needs peer"
  shows "TCPHealthcheck_Execute peer h =
           Some (errors_Wrap ''i/o timeout'' (''TCP connection failed on '' @ TCP_URL h))"
  using assms
  by (simp add: TCPHealthcheck_Execute_def TCPHealthcheck_timeoutCtx_exact
      Dialer_DialContext_def done_before_def)

text \<open>
  Claim C4 at a command probe with a timeout of one second that runs \<open>sleep 10\<close>:
  the context of \<open>Execute\<close> is cancelled after \<open>10\<^sup>9\<close> seconds, not after one, the
  process runs to its end and \<open>Execute\<close> returns no error. With a timeout of ten
  seconds the product wraps around to a negative duration, and \<open>Execute\<close> fails
  at once, even for a command that ends within a tenth of a second. A TCP probe
  with a timeout of one second whose peer needs ten seconds does fail with a
  timeout.
\<close>

theorem CommandHealthcheck_Execute_timeout_scaled:
  "CommandHealthcheck_ctx
     \<lparr>Cmd_Config = \<lparr>Cmd_Base = \<lparr>Base_Name = ''c1'', Base_Description = [],
                                   Base_Interval = 5 * time_Second, Base_OneOff = False,
                                   Base_Source = ''api''\<rparr>,
                     Command = ''sleep'', Arguments = [''10''], Cmd_Timeout = time_Second\<rparr>,
      Cmd_URL = []\<rparr>
   = Some 1000000000000000000 \<and>
   CommandHealthcheck_Execute
     \<lparr>start_err = None, run_needs = 10 * time_Second, exit_code = 0, stderr_text = []\<rparr>
     \<lparr>Cmd_Config = \<lparr>Cmd_Base = \<lparr>Base_Name = ''c1'', Base_Description = [],
                                   Base_Interval = 5 * time_Second, Base_OneOff = False,
                                   Base_Source = ''api''\<rparr>,
                     Command = ''sleep'', Arguments = [''10''], Cmd_Timeout = time_Second\<rparr>,
      Cmd_URL = []\<rparr>
   = None \<and>
   CommandHealthcheck_Execute
     \<lparr>start_err = None, run_needs = 100000000, exit_code = 0, stderr_text = []\<rparr>
     \<lparr>Cmd_Config = \<lparr>Cmd_Base = \<lparr>Base_Name = ''c2'', Base_Description = [],
                                   Base_Interval = 30 * time_Second, Base_OneOff = False,
                                   Base_Source = ''api''\<rparr>,
                     Command = ''true'', Arguments = [], Cmd_Timeout = 10 * time_Second\<rparr>,
      Cmd_URL = []\<rparr>
   = Some ''The command failed, stderr=: context deadline exceeded'' \<and>
   TCPHealthcheck_Execute
     \<lparr>connect_needs = 10 * time_Second, connect_err = None, close_err = None\<rparr>
     \<lparr>TCP_Config = \<lparr>TCP_Name = ''t1'', TCP_Description = [], TCP_Target = ''10.0.0.1'',
                     TCP_Port = 80, TCP_Timeout = time_Second,
                     TCP_Interval = 2 * time_Second, TCP_OneOff = False\<rparr>,
      TCP_URL = ''10.0.0.1:80'', TCP_t = \<lparr>alive = 1, dying = False, dead = False\<rparr>\<rparr>
   = Some ''TCP connection failed on 10.0.0.1:80: i/o timeout''"
  by (simp add: CommandHealthcheck_ctx_def CommandHealthcheck_Execute_def Cmd_Run_def
      context_Background_def context_WithTimeout_def done_before_def time_Second_def
      TCPHealthcheck_Execute_def TCPHealthcheck_timeoutCtx_def tomb_Context_def
      Dialer_DialContext_def errors_Wrap_def word_sless_alt word_sle_eq)

section \<open>Stopping a DNS probe\<close>

text \<open>
  Claim C3, as the code has it. When \<open>Start\<close> has returned on a probe and the
  driver returns once it is told to stop, \<open>Stop\<close> returns no error: the ticker is
  stopped and the tomb is dead. Any further \<open>Stop\<close> returns no error either and
  leaves the probe as it is.
\<close>

theorem Stop_after_Start_idempotent:
  assumes "DNSHealthcheck_Start h0 = Returns (r, h)" and "drivers_return"
  shows "DNSHealthcheck_Stop drivers_return h =
           Returns (None, h\<lparr>DNS_Tick := Some (Ticker False),
                            DNS_t := \<lparr>alive = 0, dying = True, dead = True\<rparr>\<rparr>) \<and>
         (\<forall>d. DNSHealthcheck_Stop d
                 (h\<lparr>DNS_Tick := Some (Ticker False),
                    DNS_t := \<lparr>alive = 0, dying = True, dead = True\<rparr>\<rparr>) =
               Returns (None, h\<lparr>DNS_Tick := Some (Ticker False),
                                DNS_t := \<lparr>alive = 0, dying = True, dead = True\<rparr>\<rparr>))"
  using assms
  by (auto simp: DNSHealthcheck_Start_def DNSHealthcheck_Stop_def tomb_Kill_def tomb_Wait_def
      Let_def split: if_splits)

text \<open>The theorem at a new DNS probe with an interval of five seconds, started.\<close>

theorem Stop_after_Start_witness:
  "DNSHealthcheck_Start
     (NewDNSHealthcheck \<lparr>DNS_Name = ''d1'', DNS_Description = [], DNS_Domain = ''localhost'',
                          DNS_Interval = 5 * time_Second, DNS_OneOff = False\<rparr>)
   = Returns (None,
       \<lparr>DNS_Config = \<lparr>DNS_Name = ''d1'', DNS_Description = [], DNS_Domain = ''localhost'',
                       DNS_Interval = 5 * time_Second, DNS_OneOff = False\<rparr>,
        DNS_URL = [], DNS_Tick = Some (Ticker True),
        DNS_t = \<lparr>alive = 1, dying = False, dead = False\<rparr>\<rparr>) \<and>
   DNSHealthcheck_Stop True
       \<lparr>DNS_Config = \<lparr>DNS_Name = ''d1'', DNS_Description = [], DNS_Domain = ''localhost'',
                       DNS_Interval = 5 * time_Second, DNS_OneOff = False\<rparr>,
        DNS_URL = [], DNS_Tick = Some (Ticker True),
        DNS_t = \<lparr>alive = 1, dying = False, dead = False\<rparr>\<rparr>
   = Returns (None,
       \<lparr>DNS_Config = \<lparr>DNS_Name = ''d1'', DNS_Description = [], DNS_Domain = ''localhost'',
                       DNS_Interval = 5 * time_Second, DNS_OneOff = False\<rparr>,
        DNS_URL = [], DNS_Tick = Some (Ticker False),
        DNS_t = \<lparr>alive = 0, dying = True, dead = True\<rparr>\<rparr>) \<and>
   DNSHealthcheck_Stop False
       \<lparr>DNS_Config = \<lparr>DNS_Name = ''d1'', DNS_Description = [], DNS_Domain = ''localhost'',
                       DNS_Interval = 5 * time_Second, DNS_OneOff = False\<rparr>,
        DNS_URL = [], DNS_Tick = Some (Ticker False),
        DNS_t = \<lparr>alive = 0, dying = True, dead = True\<rparr>\<rparr>
   = Returns (None,
       \<lparr>DNS_Config = \<lparr>DNS_Name = ''d1'', DNS_Description = [], DNS_Domain = ''localhost'',
                       DNS_Interval = 5 * time_Second, DNS_OneOff = False\<rparr>,
        DNS_URL = [], DNS_Tick = Some (Ticker False),
        DNS_t = \<lparr>alive = 0, dying = True, dead = True\<rparr>\<rparr>)"
  using Stop_after_Start_idempotent
    [of "NewDNSHealthcheck \<lparr>DNS_Name = ''d1'', DNS_Description = [], DNS_Domain = ''localhost'',
                            DNS_Interval = 5 * time_Second, DNS_OneOff = False\<rparr>"
        None
        "\<lparr>DNS_Config = \<lparr>DNS_Name = ''d1'', DNS_Description = [], DNS_Domain = ''localhost'',
                        DNS_Interval = 5 * time_Second, DNS_OneOff = False\<rparr>,
          DNS_URL = [], DNS_Tick = Some (Ticker True),
          DNS_t = \<lparr>alive = 1, dying = False, dead = False\<rparr>\<rparr>"
        True]
  by (simp add: DNSHealthcheck_Start_def NewDNSHealthcheck_def time_Second_def word_sle_eq)

text \<open>
  Claim C3 as stated fails: on a probe that was never started the ticker is \<open>nil\<close>,
  and \<open>Stop\<close> panics on it, right after construction as well as after \<open>Initialize\<close>.
\<close>

theorem Stop_before_Start_counterexample:
  "DNSHealthcheck_Stop True
     (NewDNSHealthcheck \<lparr>DNS_Name = ''d1'', DNS_Description = [], DNS_Domain = ''localhost'',
                          DNS_Interval = 5 * time_Second, DNS_OneOff = False\<rparr>)
   = Panics ''invalid memory address or nil pointer dereference'' \<and>
   DNSHealthcheck_Stop True
     (snd (DNSHealthcheck_Initialize
        (NewDNSHealthcheck \<lparr>DNS_Name = ''d1'', DNS_Description = [], DNS_Domain = ''localhost'',
                             DNS_Interval = 5 * time_Second, DNS_OneOff = False\<rparr>)))
   = Panics ''invalid memory address or nil pointer dereference''"
  by (simp add: DNSHealthcheck_Stop_def NewDNSHealthcheck_def DNSHealthcheck_Initialize_def)

section \<open>The driver and the stop signal\<close>

text \<open>In its \<open>select\<close> with no tick to receive, a driver told to stop can only leave.\<close>

lemma driver_leaves_on_stop:
  "dying_closed env \<Longrightarrow> \<not> tick_ready env \<Longrightarrow>
   driver_steps h env Selecting = [(None, Exited)]"
  by simp

text \<open>
  Claim C6, as the code has it. In its \<open>select\<close>, the driver can leave when the
  stop signal is there, and no step out of the \<open>select\<close> puts a result on the
  channel: it either leaves or goes on to send the result of the execution. In its
  send, the driver has one step, the delivery of the result, and it has that step
  only when the channel takes the result; the stop signal plays no part. A driver
  that has left does nothing more.
\<close>

theorem driver_steps_send_ignores_stop:
  "(dying_closed env \<longrightarrow> (None, Exited) \<in> set (driver_steps h env Selecting)) \<and>
   (\<forall>step \<in> set (driver_steps h env Selecting).
      fst step = None \<and>
      (snd step = Exited \<or>
       snd step = Sending (NewResult h (exec_err (execution env))
                             (env_now env + sint (exec_elapsed (execution env)))))) \<and>
   driver_steps h env (Sending result) =
     (if sink_ready env then [(Some result, Selecting)] else []) \<and>
   driver_steps h env Exited = []"
  by auto

text \<open>
  The theorem where a tick and the stop signal are both there and nobody receives
  on the channel: from the \<open>select\<close> the driver may leave or go on to send; in the
  send it has no step.
\<close>

theorem driver_steps_witness:
  "dying_closed \<lparr>tick_ready = True, dying_closed = True, sink_ready = False,
                  execution = \<lparr>exec_err = None, exec_elapsed = 0\<rparr>, env_now = 100\<rparr> \<and>
   driver_steps (example_probe ''d1'' None None True)
     \<lparr>tick_ready = True, dying_closed = True, sink_ready = False,
      execution = \<lparr>exec_err = None, exec_elapsed = 0\<rparr>, env_now = 100\<rparr> Selecting
   = [(None, Sending \<lparr>Result_Name = ''d1'', Success = True, Timestamp = 100,
                       message = ''success''\<rparr>),
      (None, Exited)] \<and>
   driver_steps (example_probe ''d1'' None None True)
     \<lparr>tick_ready = True, dying_closed = True, sink_ready = False,
      execution = \<lparr>exec_err = None, exec_elapsed = 0\<rparr>, env_now = 100\<rparr>
     (Sending \<lparr>Result_Name = ''d1'', Success = True, Timestamp = 100, message = ''success''\<rparr>)
   = []"
  using driver_steps_send_ignores_stop
    [of "\<lparr>tick_ready = True, dying_closed = True, sink_ready = False,
          execution = \<lparr>exec_err = None, exec_elapsed = 0\<rparr>, env_now = 100\<rparr>"
        "example_probe ''d1'' None None True"
        "\<lparr>Result_Name = ''d1'', Success = True, Timestamp = 100, message = ''success''\<rparr>"]
  by (simp add: NewResult_def example_probe_def hc_Name_def)

text \<open>
  Claim C6 as stated fails: with the stop signal there and nobody receiving on the
  channel, a driver in its send has no step at all. It does not leave, and the
  result is not dropped; once a receiver comes, the result is delivered although the
  stop signal is there.
\<close>

theorem driver_send_counterexample:
  "driver_steps (example_probe ''d1'' None None True)
     \<lparr>tick_ready = False, dying_closed = True, sink_ready = False,
      execution = \<lparr>exec_err = None, exec_elapsed = 0\<rparr>, env_now = 100\<rparr>
     (Sending \<lparr>Result_Name = ''d1'', Success = True, Timestamp = 100, message = ''success''\<rparr>)
   = [] \<and>
   driver_steps (example_probe ''d1'' None None True)
     \<lparr>tick_ready = False, dying_closed = True, sink_ready = True,
      execution = \<lparr>exec_err = None, exec_elapsed = 0\<rparr>, env_now = 100\<rparr>
     (Sending \<lparr>Result_Name = ''d1'', Success = True, Timestamp = 100, message = ''success''\<rparr>)
   = [(Some \<lparr>Result_Name = ''d1'', Success = True, Timestamp = 100, message = ''success''\<rparr>,
       Selecting)]"
  by simp

end
